theory Spec2Isabelle
  imports Main "HOL-Library.AList"
begin

section \<open>Access control and delegation: the storage and routes of the course marketplace\<close>

text \<open>
  The development embeds the in-memory storage (class \<open>MemStorage\<close>) and the HTTP
  routes of \<open>registerRoutes\<close> that decide who may view a course: ownership, temporary
  (delegated) access, and the access-request workflow.

  Conventions of the embedding.
  \<^item> A JavaScript \<open>Map<number, T>\<close> iterates in insertion order, \<open>set\<close> on a present key
    replaces the value in place and \<open>set\<close> on a fresh key appends. It is an association
    list: \<open>map_of\<close> is \<open>get\<close>, \<open>AList.update\<close> is \<open>set\<close>, \<open>map snd\<close> is
    \<open>Array.from(m.values())\<close>.
  \<^item> A \<open>Date\<close> is its number of milliseconds, an \<open>int\<close>; every handler reads the clock
    once, as the parameter \<open>now\<close>.
  \<^item> A handler takes the store and returns the HTTP response with the new store.
  \<^item> A request field that is missing (or does not parse) is \<open>None\<close>.
\<close>

subsection \<open>Strings\<close>

text \<open>
  \<open>String.prototype.toLowerCase\<close> on the ASCII range: the letters \<open>A\<close> to \<open>Z\<close> (codes 65
  to 90) move to \<open>a\<close> to \<open>z\<close>, every other character stays. Wallet addresses are
  hexadecimal ASCII strings.
\<close>

definition toLowerChar :: "char \<Rightarrow> char" where
  "toLowerChar c =
     (let n = (of_char c :: nat) in if 65 \<le> n \<and> n \<le> 90 then char_of (n + 32) else c)"

definition toLowerCase :: "string \<Rightarrow> string" where
  "toLowerCase s = map toLowerChar s"

text \<open>Two strings differ only in letter case: same length, and position by position the
  same character up to the case of a letter.\<close>

definition sameUpToCase :: "string \<Rightarrow> string \<Rightarrow> bool" where
  "sameUpToCase a b = list_all2 (\<lambda>x y. x = y \<or> toLowerChar x = y \<or> x = toLowerChar y) a b"

subsection \<open>Rows of the schema\<close>

text \<open>The columns of \<open>users\<close>, \<open>courses\<close>, \<open>nft_ownership\<close>, \<open>temporary_access\<close> and
  \<open>access_requests\<close> that the access rules read or write. A nullable text column is a
  \<open>string option\<close>.\<close>

record user =
  u_id :: int
  username :: string
  walletAddress :: "string option"

record course =
  c_id :: int
  creatorId :: int

record nftOwnership =
  o_id :: int
  o_courseId :: int
  ownerId :: int
  tokenId :: string
  mintedAt :: int

record temporaryAccess =
  ta_id :: int
  ta_ownershipId :: int
  recipientAddress :: string
  expiresAt :: int
  isActive :: bool
  ta_createdAt :: int

record accessRequest =
  ar_id :: int
  ar_courseId :: int
  requesterAddress :: string
  ownerAddress :: string
  requestMessage :: "string option"
  requestDuration :: int
  status :: string
  createdAt :: int
  updatedAt :: int

text \<open>The insert types (\<open>InsertUser\<close>, \<open>InsertNftOwnership\<close>, \<open>InsertTemporaryAccess\<close>,
  \<open>InsertAccessRequest\<close>): the row without the generated columns.\<close>

record insertUser =
  iu_username :: string
  iu_walletAddress :: "string option"

record insertNftOwnership =
  io_courseId :: int
  io_ownerId :: int
  io_tokenId :: string

record insertTemporaryAccess =
  it_ownershipId :: int
  it_recipientAddress :: string
  it_expiresAt :: int

record insertAccessRequest =
  ir_courseId :: int
  ir_requesterAddress :: string
  ir_ownerAddress :: string
  ir_requestMessage :: "string option"
  ir_requestDuration :: int
  ir_status :: "string option"

subsection \<open>The store\<close>

type_synonym 'a table = "(int \<times> 'a) list"

definition values_of :: "'a table \<Rightarrow> 'a list" where
  "values_of t = map snd t"

record store =
  users :: "user table"
  courses :: "course table"
  ownerships :: "nftOwnership table"
  temporaryAccesses :: "temporaryAccess table"
  accessRequests :: "accessRequest table"
  userId :: int
  courseId :: int
  ownershipId :: int
  temporaryAccessId :: int
  accessRequestId :: int

text \<open>The constructor of \<open>MemStorage\<close>: empty maps, every counter at 1.\<close>

definition newStorage :: store where
  "newStorage =
     \<lparr>users = [], courses = [], ownerships = [], temporaryAccesses = [], accessRequests = [],
      userId = 1, courseId = 1, ownershipId = 1, temporaryAccessId = 1, accessRequestId = 1\<rparr>"

subsection \<open>Storage methods\<close>


definition getUserByWalletAddress :: "store \<Rightarrow> string \<Rightarrow> user option" where
  "getUserByWalletAddress s w =
     find (\<lambda>u. map_option toLowerCase (walletAddress u) = Some (toLowerCase w))
       (values_of (users s))"

text \<open>\<open>insertUser.walletAddress || null\<close>: the empty string is falsy and is stored as null.\<close>

definition createUser :: "insertUser \<Rightarrow> store \<Rightarrow> user \<times> store" where
  "createUser ins s =
     (let i = userId s;
          u = \<lparr>u_id = i, username = iu_username ins,
               walletAddress = (case iu_walletAddress ins of
                                   None \<Rightarrow> None
                                 | Some w \<Rightarrow> if w = [] then None else Some w)\<rparr>
      in (u, s\<lparr>userId := i + 1, users := AList.update i u (users s)\<rparr>))"

definition getCourse :: "store \<Rightarrow> int \<Rightarrow> course option" where
  "getCourse s i = map_of (courses s) i"

definition createCourse :: "int \<Rightarrow> store \<Rightarrow> course \<times> store" where
  "createCourse creator s =
     (let i = courseId s;
          c = \<lparr>c_id = i, creatorId = creator\<rparr>
      in (c, s\<lparr>courseId := i + 1, courses := AList.update i c (courses s)\<rparr>))"

definition getNftOwnership :: "store \<Rightarrow> int \<Rightarrow> nftOwnership option" where
  "getNftOwnership s i = map_of (ownerships s) i"

definition getNftOwnershipByCourseAndOwner :: "store \<Rightarrow> int \<Rightarrow> int \<Rightarrow> nftOwnership option" where
  "getNftOwnershipByCourseAndOwner s cid oid =
     find (\<lambda>ownership. o_courseId ownership = cid \<and> ownerId ownership = oid)
       (values_of (ownerships s))"

definition createNftOwnership :: "int \<Rightarrow> insertNftOwnership \<Rightarrow> store \<Rightarrow> nftOwnership \<times> store" where
  "createNftOwnership now ins s =
     (let i = ownershipId s;
          ownership = \<lparr>o_id = i, o_courseId = io_courseId ins, ownerId = io_ownerId ins,
                       tokenId = io_tokenId ins, mintedAt = now\<rparr>
      in (ownership, s\<lparr>ownershipId := i + 1, ownerships := AList.update i ownership (ownerships s)\<rparr>))"

definition createTemporaryAccess ::
  "int \<Rightarrow> insertTemporaryAccess \<Rightarrow> store \<Rightarrow> temporaryAccess \<times> store" where
  "createTemporaryAccess now ins s =
     (let i = temporaryAccessId s;
          access = \<lparr>ta_id = i, ta_ownershipId = it_ownershipId ins,
                    recipientAddress = it_recipientAddress ins, expiresAt = it_expiresAt ins,
                    isActive = True, ta_createdAt = now\<rparr>
      in (access,
          s\<lparr>temporaryAccessId := i + 1,
            temporaryAccesses := AList.update i access (temporaryAccesses s)\<rparr>))"

definition getActiveTemporaryAccess :: "int \<Rightarrow> store \<Rightarrow> int \<Rightarrow> string \<Rightarrow> temporaryAccess option" where
  "getActiveTemporaryAccess now s oid recipient =
     (let normalizedRecipientAddress = toLowerCase recipient
      in find (\<lambda>access.
                 ta_ownershipId access = oid \<and>
                 toLowerCase (recipientAddress access) = normalizedRecipientAddress \<and>
                 isActive access \<and>
                 expiresAt access > now)
           (values_of (temporaryAccesses s)))"

definition getTemporaryAccessByOwnership :: "store \<Rightarrow> int \<Rightarrow> temporaryAccess list" where
  "getTemporaryAccessByOwnership s oid =
     filter (\<lambda>access. ta_ownershipId access = oid) (values_of (temporaryAccesses s))"

definition deactivateTemporaryAccess :: "int \<Rightarrow> store \<Rightarrow> bool \<times> store" where
  "deactivateTemporaryAccess i s =
     (case map_of (temporaryAccesses s) i of
        None \<Rightarrow> (False, s)
      | Some access \<Rightarrow>
          (True, s\<lparr>temporaryAccesses :=
                     AList.update i (access\<lparr>isActive := False\<rparr>) (temporaryAccesses s)\<rparr>))"

text \<open>The loop of \<open>checkTemporaryAccess\<close> over the ownerships of the course: the first
  ownership with a matching grant returns true, the end of the list returns false.\<close>

fun checkOwnerships :: "int \<Rightarrow> string \<Rightarrow> temporaryAccess list \<Rightarrow> nftOwnership list \<Rightarrow> bool" where
  "checkOwnerships now normalizedWalletAddress accesses [] = False"
| "checkOwnerships now normalizedWalletAddress accesses (ownership # rest) =
     (let hasAccess =
            list_ex (\<lambda>access.
                let isOwnershipMatch = (ta_ownershipId access = o_id ownership);
                    isAddressMatch = (toLowerCase (recipientAddress access) = normalizedWalletAddress);
                    isActive' = isActive access;
                    isValid = (expiresAt access > now)
                in isOwnershipMatch \<and> isAddressMatch \<and> isActive' \<and> isValid)
              accesses
      in if hasAccess then True
         else checkOwnerships now normalizedWalletAddress accesses rest)"

definition checkTemporaryAccess :: "int \<Rightarrow> store \<Rightarrow> int \<Rightarrow> string \<Rightarrow> bool" where
  "checkTemporaryAccess now s cid wallet =
     (let normalizedWalletAddress = toLowerCase wallet;
          courseOwnerships = filter (\<lambda>ownership. o_courseId ownership = cid)
                               (values_of (ownerships s))
      in checkOwnerships now normalizedWalletAddress (values_of (temporaryAccesses s))
           courseOwnerships)"

text \<open>\<open>getSharedCoursesForWallet\<close>: the live grants of a wallet, each joined to its course;
  a grant whose ownership or course is missing is skipped (\<open>continue\<close>).\<close>

fun sharedCoursesLoop :: "store \<Rightarrow> temporaryAccess list \<Rightarrow> (course \<times> int \<times> int) list" where
  "sharedCoursesLoop s [] = []"
| "sharedCoursesLoop s (access # rest) =
     (case map_of (ownerships s) (ta_ownershipId access) of
        None \<Rightarrow> sharedCoursesLoop s rest
      | Some ownership \<Rightarrow>
          (case map_of (courses s) (o_courseId ownership) of
             None \<Rightarrow> sharedCoursesLoop s rest
           | Some c \<Rightarrow> (c, expiresAt access, ta_id access) # sharedCoursesLoop s rest))"

definition getSharedCoursesForWallet :: "int \<Rightarrow> store \<Rightarrow> string \<Rightarrow> (course \<times> int \<times> int) list" where
  "getSharedCoursesForWallet now s wallet =
     (let normalizedWalletAddress = toLowerCase wallet;
          activeAccesses =
            filter (\<lambda>access.
                let normalized = toLowerCase (recipientAddress access);
                    isMatch = (normalized = normalizedWalletAddress);
                    isActive' = isActive access;
                    isValid = (expiresAt access > now)
                in isMatch \<and> isActive' \<and> isValid)
              (values_of (temporaryAccesses s))
      in if activeAccesses = [] then [] else sharedCoursesLoop s activeAccesses)"

definition createAccessRequest :: "int \<Rightarrow> insertAccessRequest \<Rightarrow> store \<Rightarrow> accessRequest \<times> store" where
  "createAccessRequest now ins s =
     (let i = accessRequestId s;
          request = \<lparr>ar_id = i, ar_courseId = ir_courseId ins,
                     requesterAddress = ir_requesterAddress ins,
                     ownerAddress = ir_ownerAddress ins,
                     requestMessage = (case ir_requestMessage ins of
                                         None \<Rightarrow> None
                                       | Some m \<Rightarrow> if m = [] then None else Some m),
                     requestDuration = ir_requestDuration ins,
                     status = (case ir_status ins of
                                 None \<Rightarrow> ''pending''
                               | Some st \<Rightarrow> if st = [] then ''pending'' else st),
                     createdAt = now, updatedAt = now\<rparr>
      in (request, s\<lparr>accessRequestId := i + 1,
                     accessRequests := AList.update i request (accessRequests s)\<rparr>))"

definition getAccessRequestById :: "store \<Rightarrow> int \<Rightarrow> accessRequest option" where
  "getAccessRequestById s i = map_of (accessRequests s) i"

text \<open>\<open>.sort((a, b) => dateB - dateA)\<close>: newest first; \<open>Array.prototype.sort\<close> is stable,
  and so is \<open>sort_key\<close>.\<close>

definition newestFirst :: "accessRequest list \<Rightarrow> accessRequest list" where
  "newestFirst rs = sort_key (\<lambda>r. - createdAt r) rs"

definition getAccessRequestsByCourse :: "store \<Rightarrow> int \<Rightarrow> accessRequest list" where
  "getAccessRequestsByCourse s cid =
     newestFirst (filter (\<lambda>request. ar_courseId request = cid) (values_of (accessRequests s)))"

datatype storageError = CourseNotFoundForRequest int

text \<open>\<open>requests.map(request => ...)\<close> of the two listings by address: a request whose
  course is missing throws.\<close>

fun withCourse :: "store \<Rightarrow> accessRequest list \<Rightarrow> storageError + (accessRequest \<times> course) list" where
  "withCourse s [] = Inr []"
| "withCourse s (request # rest) =
     (case map_of (courses s) (ar_courseId request) of
        None \<Rightarrow> Inl (CourseNotFoundForRequest (ar_id request))
      | Some c \<Rightarrow>
          (case withCourse s rest of
             Inl e \<Rightarrow> Inl e
           | Inr joined \<Rightarrow> Inr ((request, c) # joined)))"

definition getAccessRequestsByRequester ::
  "store \<Rightarrow> string \<Rightarrow> storageError + (accessRequest \<times> course) list" where
  "getAccessRequestsByRequester s requester =
     (let normalizedRequesterAddress = toLowerCase requester;
          requests = newestFirst
            (filter (\<lambda>request. toLowerCase (requesterAddress request) = normalizedRequesterAddress)
               (values_of (accessRequests s)))
      in withCourse s requests)"

definition getAccessRequestsByOwner ::
  "store \<Rightarrow> string \<Rightarrow> storageError + (accessRequest \<times> course) list" where
  "getAccessRequestsByOwner s owner =
     (let normalizedOwnerAddress = toLowerCase owner;
          requests = newestFirst
            (filter (\<lambda>request. toLowerCase (ownerAddress request) = normalizedOwnerAddress)
               (values_of (accessRequests s)))
      in withCourse s requests)"

definition updateAccessRequestStatus ::
  "int \<Rightarrow> int \<Rightarrow> string \<Rightarrow> store \<Rightarrow> accessRequest option \<times> store" where
  "updateAccessRequestStatus now i st s =
     (case map_of (accessRequests s) i of
        None \<Rightarrow> (None, s)
      | Some request \<Rightarrow>
          (let updatedRequest = request\<lparr>status := st, updatedAt := now\<rparr>
           in (Some updatedRequest,
               s\<lparr>accessRequests := AList.update i updatedRequest (accessRequests s)\<rparr>)))"

subsection \<open>Routes\<close>

text \<open>
  The JSON bodies the routes answer with. \<open>Message\<close> is \<open>{ message }\<close>;
  \<open>ValidationMessage\<close> is the message of a failed schema validation, whose text the
  validation library composes; \<open>CheckJson\<close> is \<open>{ hasAccess, accessType }\<close>, with
  \<open>None\<close> for an absent \<open>accessType\<close>; the two \<open>Request...\<close> bodies of an approval are
  \<open>{ ...updatedRequest, accessGranted: true, expiresAt }\<close> and
  \<open>{ ...updatedRequest, accessGranted: false, error }\<close>.
\<close>

datatype payload =
    Message string
  | ValidationMessage
  | StorageErrorMessage storageError
  | UserJson user
  | OwnershipJson nftOwnership
  | AccessJson temporaryAccess
  | CheckJson bool "string option"
  | CoursesJson "(course \<times> int \<times> int) list"
  | RequestJson "accessRequest option"
  | RequestGrantedJson "accessRequest option" int
  | RequestNotGrantedJson "accessRequest option" string
  | RequestsJson "accessRequest list"
  | RequestsWithCourseJson "(accessRequest \<times> course) list"

datatype response = Response (code: nat) (body: payload)

text \<open>\<open>!x\<close> for a string field of the body: missing or empty.\<close>

definition falsyString :: "string option \<Rightarrow> bool" where
  "falsyString x = (case x of None \<Rightarrow> True | Some v \<Rightarrow> v = [])"



text \<open>\<open>POST /api/nft/mint\<close>. The schema requires \<open>courseId\<close>, \<open>ownerId\<close> and
  \<open>tokenId\<close>.\<close>

record mintBody =
  mb_courseId :: "int option"
  mb_ownerId :: "int option"
  mb_tokenId :: "string option"

definition mint :: "int \<Rightarrow> mintBody \<Rightarrow> store \<Rightarrow> response \<times> store" where
  "mint now b s =
     (case (mb_courseId b, mb_ownerId b, mb_tokenId b) of
        (Some cid, Some oid, Some tok) \<Rightarrow>
          (case getCourse s cid of
             None \<Rightarrow> (Response 404 (Message ''Course not found''), s)
           | Some c \<Rightarrow>
               (case getNftOwnershipByCourseAndOwner s cid oid of
                  Some existingOwnership \<Rightarrow>
                    (Response 400 (Message ''User already owns this course NFT''), s)
                | None \<Rightarrow>
                    (let (ownership, s') =
                           createNftOwnership now
                             \<lparr>io_courseId = cid, io_ownerId = oid, io_tokenId = tok\<rparr> s
                     in (Response 201 (OwnershipJson ownership), s'))))
      | _ \<Rightarrow> (Response 400 ValidationMessage, s))"

text \<open>\<open>POST /api/access/share\<close>. \<open>sb_expiresAt\<close> is \<open>new Date(expiresAt)\<close>, \<open>None\<close> when
  that is not a valid date (the schema rejects it).\<close>

record shareBody =
  sb_ownershipId :: "int option"
  sb_recipientAddress :: "string option"
  sb_expiresAt :: "int option"

definition share :: "int \<Rightarrow> shareBody \<Rightarrow> store \<Rightarrow> response \<times> store" where
  "share now b s =
     (if falsyString (sb_recipientAddress b)
      then (Response 400 (Message ''Recipient wallet address is required''), s)
      else
        (let normalizedRecipientAddress = toLowerCase (the (sb_recipientAddress b))
         in case (sb_ownershipId b, sb_expiresAt b) of
              (Some oid, Some e) \<Rightarrow>
                (let validatedData =
                       \<lparr>it_ownershipId = oid, it_recipientAddress = normalizedRecipientAddress,
                        it_expiresAt = e\<rparr>
                 in case getNftOwnership s (it_ownershipId validatedData) of
                      None \<Rightarrow> (Response 404 (Message ''NFT ownership not found''), s)
                    | Some ownership \<Rightarrow>
                        (case getActiveTemporaryAccess now s (it_ownershipId validatedData)
                                normalizedRecipientAddress of
                           Some existingAccess \<Rightarrow>
                             (Response 400
                                (Message ''Active temporary access already exists for this recipient''),
                              s)
                         | None \<Rightarrow>
                             (let (access, s') = createTemporaryAccess now validatedData s
                              in (Response 201 (AccessJson access), s'))))
            | _ \<Rightarrow> (Response 400 ValidationMessage, s)))"

text \<open>\<open>POST /api/access/check\<close>. \<open>!courseId\<close> holds for a missing id and for 0.\<close>

record checkBody =
  cb_courseId :: "int option"
  cb_walletAddress :: "string option"

definition checkAccess :: "int \<Rightarrow> checkBody \<Rightarrow> store \<Rightarrow> response" where
  "checkAccess now b s =
     (if cb_courseId b = None \<or> cb_courseId b = Some 0 \<or> falsyString (cb_walletAddress b)
      then Response 400 (Message ''Course ID and wallet address are required'')
      else
        (let cid = the (cb_courseId b);
             normalizedWalletAddress = toLowerCase (the (cb_walletAddress b));
             directOwnership =
               (case getUserByWalletAddress s normalizedWalletAddress of
                  None \<Rightarrow> None
                | Some u \<Rightarrow> getNftOwnershipByCourseAndOwner s cid (u_id u))
         in case directOwnership of
              Some ownership \<Rightarrow> Response 200 (CheckJson True (Some ''owner''))
            | None \<Rightarrow>
                (if checkTemporaryAccess now s cid normalizedWalletAddress
                 then Response 200 (CheckJson True (Some ''temporary''))
                 else Response 200 (CheckJson False None))))"

text \<open>\<open>GET /api/access/shared/:walletAddress\<close>.\<close>

definition sharedCourses :: "int \<Rightarrow> string \<Rightarrow> store \<Rightarrow> response" where
  "sharedCourses now wallet s =
     (if wallet = [] then Response 400 (Message ''Wallet address is required'')
      else Response 200 (CoursesJson (getSharedCoursesForWallet now s (toLowerCase wallet))))"

text \<open>\<open>POST /api/access/revoke/:accessId\<close>. The parameter is \<open>parseInt(...)\<close>, \<open>None\<close>
  when that is \<open>NaN\<close>.\<close>

definition revoke :: "int option \<Rightarrow> store \<Rightarrow> response \<times> store" where
  "revoke accessId s =
     (case accessId of
        None \<Rightarrow> (Response 400 (Message ''Invalid access ID''), s)
      | Some i \<Rightarrow>
          (let (deactivated, s') = deactivateTemporaryAccess i s
           in if \<not> deactivated
              then (Response 404 (Message ''Temporary access not found''), s')
              else (Response 200 (Message ''Temporary access revoked successfully''), s')))"

text \<open>\<open>POST /api/access-requests\<close>. The insert schema is generated from the table
  \<open>access_requests\<close>: \<open>courseId\<close>, \<open>requesterAddress\<close>, \<open>ownerAddress\<close> and
  \<open>requestDuration\<close> are required (\<open>notNull\<close>, no default), \<open>requestMessage\<close> and
  \<open>status\<close> are optional; the table puts no bound on \<open>requestDuration\<close>. The route
  overwrites \<open>status\<close> with \<open>pending\<close>.\<close>

record accessRequestBody =
  rb_courseId :: "int option"
  rb_requesterAddress :: "string option"
  rb_ownerAddress :: "string option"
  rb_requestMessage :: "string option"
  rb_requestDuration :: "int option"
  rb_status :: "string option"

definition validateAccessRequest :: "accessRequestBody \<Rightarrow> insertAccessRequest option" where
  "validateAccessRequest b =
     (case (rb_courseId b, rb_requesterAddress b, rb_ownerAddress b, rb_requestDuration b) of
        (Some cid, Some requester, Some owner, Some d) \<Rightarrow>
          Some \<lparr>ir_courseId = cid, ir_requesterAddress = requester, ir_ownerAddress = owner,
                ir_requestMessage = rb_requestMessage b, ir_requestDuration = d,
                ir_status = rb_status b\<rparr>
      | _ \<Rightarrow> None)"

definition submitAccessRequest :: "int \<Rightarrow> accessRequestBody \<Rightarrow> store \<Rightarrow> response \<times> store" where
  "submitAccessRequest now b s =
     (case validateAccessRequest b of
        None \<Rightarrow> (Response 400 ValidationMessage, s)
      | Some requestData \<Rightarrow>
          (let normalizedRequesterAddress = toLowerCase (ir_requesterAddress requestData);
               normalizedOwnerAddress = toLowerCase (ir_ownerAddress requestData);
               (accessRequest, s') =
                 createAccessRequest now
                   (requestData\<lparr>ir_requesterAddress := normalizedRequesterAddress,
                                ir_ownerAddress := normalizedOwnerAddress,
                                ir_status := Some ''pending''\<rparr>) s
           in (Response 201 (RequestJson (Some accessRequest)), s')))"

text \<open>The check of the request form (\<open>handleSubmit\<close> of the request-access dialog) on
  the parsed duration, before the form posts to \<open>/api/access-requests\<close>: the form shows
  "Please enter a duration between 1 and 90 days" and sends nothing when it fails.\<close>

definition formDurationRejected :: "int \<Rightarrow> bool" where
  "formDurationRejected duration = (duration < 1 \<or> duration > 90)"

text \<open>The three listings of access requests.\<close>

definition requestsByCourse :: "int option \<Rightarrow> store \<Rightarrow> response" where
  "requestsByCourse cid s =
     (case cid of
        None \<Rightarrow> Response 400 (Message ''Invalid course ID'')
      | Some i \<Rightarrow> Response 200 (RequestsJson (getAccessRequestsByCourse s i)))"

definition requestsByRequester :: "string \<Rightarrow> store \<Rightarrow> response" where
  "requestsByRequester wallet s =
     (if wallet = [] then Response 400 (Message ''Wallet address is required'')
      else case getAccessRequestsByRequester s (toLowerCase wallet) of
             Inl e \<Rightarrow> Response 400 (StorageErrorMessage e)
           | Inr requests \<Rightarrow> Response 200 (RequestsWithCourseJson requests))"

definition requestsByOwner :: "string \<Rightarrow> store \<Rightarrow> response" where
  "requestsByOwner wallet s =
     (if wallet = [] then Response 400 (Message ''Wallet address is required'')
      else case getAccessRequestsByOwner s (toLowerCase wallet) of
             Inl e \<Rightarrow> Response 400 (StorageErrorMessage e)
           | Inr requests \<Rightarrow> Response 200 (RequestsWithCourseJson requests))"

text \<open>
  \<open>PATCH /api/access-requests/:id/status\<close>. The status is written first; an approval
  then looks up the owner and the ownership and creates the grant, with no look at the
  grants that exist. \<open>expiresAt.setDate(expiresAt.getDate() + n)\<close> moves the date by
  \<open>n\<close> calendar days, \<open>n\<close> times 86400000 ms.

  The route is written against the interface \<open>IStorage\<close>; its inner \<open>catch\<close> answers a
  \<open>createTemporaryAccess\<close> that throws. \<open>updateStatusWith\<close> takes that method as a
  parameter, \<open>Inl\<close> being the thrown error's message, and \<open>updateStatus\<close> is the route
  on \<open>MemStorage\<close>, whose method does not throw.
\<close>

definition addDays :: "int \<Rightarrow> int \<Rightarrow> int" where
  "addDays date n = date + n * 86400000"

definition updateStatusWith ::
  "(int \<Rightarrow> insertTemporaryAccess \<Rightarrow> store \<Rightarrow> string + temporaryAccess \<times> store) \<Rightarrow>
   int \<Rightarrow> int option \<Rightarrow> string option \<Rightarrow> store \<Rightarrow> response \<times> store" where
  "updateStatusWith create now requestId st s =
     (case requestId of
        None \<Rightarrow> (Response 400 (Message ''Invalid request ID''), s)
      | Some i \<Rightarrow>
          (if falsyString st \<or> the st \<notin> set [''pending'', ''approved'', ''rejected'']
           then (Response 400 (Message ''Invalid status value''), s)
           else
             (case getAccessRequestById s i of
                None \<Rightarrow> (Response 404 (Message ''Access request not found''), s)
              | Some request \<Rightarrow>
                  (let (updatedRequest, s1) = updateAccessRequestStatus now i (the st) s
                   in if the st = ''approved''
                      then
                        (case getUserByWalletAddress s1 (ownerAddress request) of
                           None \<Rightarrow> (Response 404 (Message ''Owner user not found''), s1)
                         | Some u \<Rightarrow>
                             (case getNftOwnershipByCourseAndOwner s1 (ar_courseId request) (u_id u) of
                                None \<Rightarrow>
                                  (Response 404 (Message ''Owner does not own this course''), s1)
                              | Some ownership \<Rightarrow>
                                  (let expires = addDays now (requestDuration request)
                                   in case create now
                                             \<lparr>it_ownershipId = o_id ownership,
                                              it_recipientAddress = requesterAddress request,
                                              it_expiresAt = expires\<rparr> s1 of
                                        Inr (access, s2) \<Rightarrow>
                                          (Response 200 (RequestGrantedJson updatedRequest expires),
                                           s2)
                                      | Inl accessError \<Rightarrow>
                                          (Response 200
                                             (RequestNotGrantedJson updatedRequest accessError),
                                           s1))))
                      else (Response 200 (RequestJson updatedRequest), s1)))))"

definition updateStatus :: "int \<Rightarrow> int option \<Rightarrow> string option \<Rightarrow> store \<Rightarrow> response \<times> store" where
  "updateStatus = updateStatusWith (\<lambda>now ins s. Inr (createTemporaryAccess now ins s))"

section \<open>Notions used by the properties\<close>

text \<open>
  Liveness as the specification words it (Delegation Engine, \<open>isEffectivelyActive\<close>): a
  grant is effectively active at \<open>now\<close> when it is active and expires strictly after
  \<open>now\<close>. The storage methods above do not call such a function; they write the test
  inline, and the properties compare the two.
\<close>

definition isEffectivelyActive :: "temporaryAccess \<Rightarrow> int \<Rightarrow> bool" where
  "isEffectivelyActive grant now = (isActive grant \<and> expiresAt grant > now)"

text \<open>A grant gives \<open>wallet\<close> live access to course \<open>cid\<close>: it derives from an
  ownership of that course, names the wallet up to case, and is live.\<close>

definition liveGrantFor :: "store \<Rightarrow> int \<Rightarrow> string \<Rightarrow> int \<Rightarrow> temporaryAccess \<Rightarrow> bool" where
  "liveGrantFor s cid wallet now access =
     (list_ex (\<lambda>ownership. o_courseId ownership = cid \<and> ta_ownershipId access = o_id ownership)
        (values_of (ownerships s))
      \<and> toLowerCase (recipientAddress access) = toLowerCase wallet
      \<and> isActive access \<and> expiresAt access > now)"

text \<open>Some user registered with \<open>wallet\<close> (up to case) holds an ownership of the course.\<close>

definition ownsCourse :: "store \<Rightarrow> int \<Rightarrow> string \<Rightarrow> bool" where
  "ownsCourse s cid wallet =
     list_ex (\<lambda>u. map_option toLowerCase (walletAddress u) = Some (toLowerCase wallet) \<and>
                  list_ex (\<lambda>ownership. o_courseId ownership = cid \<and> ownerId ownership = u_id u)
                    (values_of (ownerships s)))
       (values_of (users s))"

text \<open>The live grants of one ownership to one recipient address. The uniqueness
  invariant of the data model says this list never has two rows.\<close>

definition liveGrants :: "int \<Rightarrow> store \<Rightarrow> int \<Rightarrow> string \<Rightarrow> temporaryAccess list" where
  "liveGrants now s oid recipient =
     filter (\<lambda>access. ta_ownershipId access = oid \<and> recipientAddress access = recipient \<and>
                       isEffectivelyActive access now)
       (values_of (temporaryAccesses s))"

abbreviation withStatus :: "accessRequest \<Rightarrow> string \<Rightarrow> int \<Rightarrow> accessRequest" where
  "withStatus request st now \<equiv> request\<lparr>status := st, updatedAt := now\<rparr>"

abbreviation storeRequest :: "int \<Rightarrow> accessRequest \<Rightarrow> store \<Rightarrow> store" where
  "storeRequest i request s \<equiv> s\<lparr>accessRequests := AList.update i request (accessRequests s)\<rparr>"

text \<open>The three answers of an approval whose grant step failed: the two 404 answers of
  the owner and ownership lookups, and the 200 answer with \<open>accessGranted: false\<close>.\<close>

fun grantStepFailed :: "response \<Rightarrow> bool" where
  "grantStepFailed (Response c (Message m)) =
     (c = 404 \<and> (m = ''Owner user not found'' \<or> m = ''Owner does not own this course''))"
| "grantStepFailed (Response c (RequestNotGrantedJson updated e)) = (c = 200)"
| "grantStepFailed (Response c other) = False"

section \<open>Example stores\<close>

text \<open>Alice (wallet \<open>0xaa\<close>) registers, creates course 1 and mints its ownership; Bob
  (wallet \<open>0xBB\<close>, not registered) asks her for seven days of access, twice; Alice
  approves the first request, then the second.\<close>

definition aliceStore :: store where
  "aliceStore =
     snd (mint 100 \<lparr>mb_courseId = Some 1, mb_ownerId = Some 1, mb_tokenId = Some ''token-1''\<rparr>
       (snd (createCourse 1
         (snd (createUser \<lparr>iu_username = ''alice'', iu_walletAddress = Some ''0xaa''\<rparr>
            newStorage)))))"

definition bobAsks :: accessRequestBody where
  "bobAsks = \<lparr>rb_courseId = Some 1, rb_requesterAddress = Some ''0xBB'',
              rb_ownerAddress = Some ''0xAA'', rb_requestMessage = None,
              rb_requestDuration = Some 7, rb_status = None\<rparr>"

definition twoRequests :: store where
  "twoRequests =
     snd (submitAccessRequest 201 bobAsks (snd (submitAccessRequest 200 bobAsks aliceStore)))"

definition firstApproved :: store where
  "firstApproved = snd (updateStatus 300 (Some 1) (Some ''approved'') twoRequests)"

definition bothApproved :: store where
  "bothApproved = snd (updateStatus 301 (Some 2) (Some ''approved'') firstApproved)"

text \<open>Three requests to approve: one names an owner wallet nobody registered, one a
  course Alice holds no ownership of, one is in order.\<close>

definition strayRequests :: store where
  "strayRequests =
     snd (submitAccessRequest 203 bobAsks
       (snd (submitAccessRequest 202 (bobAsks\<lparr>rb_courseId := Some 2\<rparr>)
         (snd (submitAccessRequest 201 (bobAsks\<lparr>rb_ownerAddress := Some ''0xcc''\<rparr>)
            aliceStore)))))"

definition demoRequest :: "int \<Rightarrow> int \<Rightarrow> string \<Rightarrow> string \<Rightarrow> int \<Rightarrow> accessRequest" where
  "demoRequest i cid owner st t =
     \<lparr>ar_id = i, ar_courseId = cid, requesterAddress = ''0xbb'', ownerAddress = owner,
      requestMessage = None, requestDuration = 7, status = st, createdAt = t, updatedAt = t\<rparr>"

text \<open>A storage whose \<open>createTemporaryAccess\<close> throws.\<close>

definition failingCreate ::
  "int \<Rightarrow> insertTemporaryAccess \<Rightarrow> store \<Rightarrow> string + temporaryAccess \<times> store" where
  "failingCreate now ins s = Inl ''storage unavailable''"

definition demoAccess :: "int \<Rightarrow> int \<Rightarrow> string \<Rightarrow> int \<Rightarrow> bool \<Rightarrow> int \<Rightarrow> temporaryAccess" where
  "demoAccess i oid r e act t =
     \<lparr>ta_id = i, ta_ownershipId = oid, recipientAddress = r, expiresAt = e, isActive = act,
      ta_createdAt = t\<rparr>"

definition demoGrants :: store where
  "demoGrants = newStorage\<lparr>temporaryAccesses :=
      [(1, demoAccess 1 1 ''0xab'' 500 True 0), (2, demoAccess 2 1 ''0xcd'' 900 False 0)],
      temporaryAccessId := 3\<rparr>"


text \<open>The example stores written out: Alice, her course and her ownership, with the given
  grants and requests.\<close>

definition aliceWith :: "temporaryAccess table \<Rightarrow> accessRequest table \<Rightarrow> store" where
  "aliceWith grants requests =
     \<lparr>users = [(1, \<lparr>u_id = 1, username = ''alice'', walletAddress = Some ''0xaa''\<rparr>)],
      courses = [(1, \<lparr>c_id = 1, creatorId = 1\<rparr>)],
      ownerships = [(1, \<lparr>o_id = 1, o_courseId = 1, ownerId = 1, tokenId = ''token-1'',
                         mintedAt = 100\<rparr>)],
      temporaryAccesses = grants, accessRequests = requests,
      userId = 2, courseId = 2, ownershipId = 2,
      temporaryAccessId = 1 + int (length grants), accessRequestId = 1 + int (length requests)\<rparr>"

section \<open>Properties\<close>

subsection \<open>Strings and tables\<close>

lemma toLowerChar_idem: "toLowerChar (toLowerChar c) = toLowerChar c"
  by (simp add: toLowerChar_def Let_def)

lemma toLowerCase_idem: "toLowerCase (toLowerCase w) = toLowerCase w"
  by (simp add: toLowerCase_def toLowerChar_idem)

lemma toLowerCase_Nil_iff: "toLowerCase w = [] \<longleftrightarrow> w = []"
  by (simp add: toLowerCase_def)

lemma sameUpToCase_lower: "sameUpToCase a b \<Longrightarrow> toLowerCase a = toLowerCase b"
  unfolding sameUpToCase_def toLowerCase_def
  by (induction a b rule: list_all2_induct) (auto simp: toLowerChar_idem)

lemma sameUpToCase_Nil: "sameUpToCase a b \<Longrightarrow> (a = []) = (b = [])"
  unfolding sameUpToCase_def by (cases a; cases b) auto

lemma find_None_iff_not: "(find P xs = None) = (\<forall>x\<in>set xs. \<not> P x)"
  by (auto simp: find_None_iff)

lemma find_Some_ex: "x \<in> set xs \<Longrightarrow> P x \<Longrightarrow> \<exists>y. find P xs = Some y"
  by (cases "find P xs") (auto simp: find_None_iff)

lemma values_update_subset: "set (values_of (AList.update i v t)) \<subseteq> insert v (set (values_of t))"
  by (induction t) (auto simp: values_of_def)

lemma values_update_new: "v \<in> set (values_of (AList.update i v t))"
  by (induction t) (auto simp: values_of_def)

lemma values_update_distinct:
  "distinct (map fst t) \<Longrightarrow> map_of t i = Some a \<Longrightarrow>
   set (values_of (AList.update i v t)) = insert v (snd ` {p \<in> set t. fst p \<noteq> i})"
  by (induction t) (auto simp: values_of_def rev_image_eqI split: if_splits)

lemma map_of_update_other: "j \<noteq> i \<Longrightarrow> map_of (AList.update i v t) j = map_of t j"
  by (simp add: AList.update_conv')

lemma map_of_update_same: "map_of (AList.update i v t) i = Some v"
  by (simp add: AList.update_conv')

lemma keys_update_present: "map_of t i = Some a \<Longrightarrow> map fst (AList.update i v t) = map fst t"
  by (auto simp: AList.update_keys dest: map_of_SomeD intro: rev_image_eqI)

lemma update_fresh: "k \<notin> fst ` set t \<Longrightarrow> AList.update k v t = t @ [(k, v)]"
  by (induction t) auto

subsection \<open>The example stores, written out\<close>

lemma lower_demo:
  "toLowerCase ''0xAA'' = ''0xaa''" "toLowerCase ''0xaa'' = ''0xaa''"
  "toLowerCase ''0xBB'' = ''0xbb''" "toLowerCase ''0xbb'' = ''0xbb''"
  "toLowerCase ''0xcc'' = ''0xcc''"
  by code_simp+

lemma aliceStore_eq: "aliceStore = aliceWith [] []"
  by code_simp

lemma twoRequests_eq:
  "twoRequests = aliceWith []
     [(1, demoRequest 1 1 ''0xaa'' ''pending'' 200), (2, demoRequest 2 1 ''0xaa'' ''pending'' 201)]"
  unfolding twoRequests_def aliceStore_eq by code_simp

lemma firstApproved_eq:
  "firstApproved = aliceWith [(1, demoAccess 1 1 ''0xbb'' 604800300 True 300)]
     [(1, withStatus (demoRequest 1 1 ''0xaa'' ''pending'' 200) ''approved'' 300),
      (2, demoRequest 2 1 ''0xaa'' ''pending'' 201)]"
  unfolding firstApproved_def twoRequests_eq by code_simp

lemma bothApproved_eq:
  "bothApproved = aliceWith [(1, demoAccess 1 1 ''0xbb'' 604800300 True 300),
                             (2, demoAccess 2 1 ''0xbb'' 604800301 True 301)]
     [(1, withStatus (demoRequest 1 1 ''0xaa'' ''pending'' 200) ''approved'' 300),
      (2, withStatus (demoRequest 2 1 ''0xaa'' ''pending'' 201) ''approved'' 301)]"
  unfolding bothApproved_def firstApproved_eq by code_simp

lemma strayRequests_eq:
  "strayRequests = aliceWith []
     [(1, demoRequest 1 1 ''0xcc'' ''pending'' 201), (2, demoRequest 2 2 ''0xaa'' ''pending'' 202),
      (3, demoRequest 3 1 ''0xaa'' ''pending'' 203)]"
  unfolding strayRequests_def aliceStore_eq by code_simp


subsection \<open>Addresses are compared up to case\<close>

text \<open>
  Claim C9. Two wallet-address strings that differ only in letter case get the same
  result from every operation that takes an address: the user lookup, the active-grant
  lookup (the duplicate check), the temporary-access check, the access-check route, the
  share route (grant creation, with the store it leaves), the listing of shared courses,
  the listings of requests by requester and by owner, and the submission of a request,
  where the address is the requester's or the owner's.
\<close>

theorem case_insensitive:
  assumes "sameUpToCase a b"
  shows "getUserByWalletAddress s a = getUserByWalletAddress s b
       \<and> getActiveTemporaryAccess now s oid a = getActiveTemporaryAccess now s oid b
       \<and> checkTemporaryAccess now s cid a = checkTemporaryAccess now s cid b
       \<and> checkAccess now \<lparr>cb_courseId = c, cb_walletAddress = Some a\<rparr> s
           = checkAccess now \<lparr>cb_courseId = c, cb_walletAddress = Some b\<rparr> s
       \<and> share now \<lparr>sb_ownershipId = k, sb_recipientAddress = Some a, sb_expiresAt = e\<rparr> s
           = share now \<lparr>sb_ownershipId = k, sb_recipientAddress = Some b, sb_expiresAt = e\<rparr> s
       \<and> sharedCourses now a s = sharedCourses now b s
       \<and> requestsByRequester a s = requestsByRequester b s
       \<and> requestsByOwner a s = requestsByOwner b s
       \<and> submitAccessRequest now (rb\<lparr>rb_requesterAddress := Some a\<rparr>) s
           = submitAccessRequest now (rb\<lparr>rb_requesterAddress := Some b\<rparr>) s
       \<and> submitAccessRequest now (rb\<lparr>rb_ownerAddress := Some a\<rparr>) s
           = submitAccessRequest now (rb\<lparr>rb_ownerAddress := Some b\<rparr>) s"
proof -
  have l: "toLowerCase a = toLowerCase b" using assms by (rule sameUpToCase_lower)
  have n: "(a = []) = (b = [])" using assms by (rule sameUpToCase_Nil)
  have 1: "getUserByWalletAddress s a = getUserByWalletAddress s b"
    by (simp add: getUserByWalletAddress_def l)
  have 2: "getActiveTemporaryAccess now s oid a = getActiveTemporaryAccess now s oid b"
    by (simp add: getActiveTemporaryAccess_def l)
  have 3: "checkTemporaryAccess now s cid a = checkTemporaryAccess now s cid b"
    by (simp add: checkTemporaryAccess_def l)
  have 4: "checkAccess now \<lparr>cb_courseId = c, cb_walletAddress = Some a\<rparr> s
           = checkAccess now \<lparr>cb_courseId = c, cb_walletAddress = Some b\<rparr> s"
    by (simp add: checkAccess_def falsyString_def l n)
  have 5: "share now \<lparr>sb_ownershipId = k, sb_recipientAddress = Some a, sb_expiresAt = e\<rparr> s
           = share now \<lparr>sb_ownershipId = k, sb_recipientAddress = Some b, sb_expiresAt = e\<rparr> s"
    by (simp add: share_def falsyString_def l n)
  have 6: "sharedCourses now a s = sharedCourses now b s"
    by (simp add: sharedCourses_def l n)
  have 7: "requestsByRequester a s = requestsByRequester b s"
    by (simp add: requestsByRequester_def l n)
  have 8: "requestsByOwner a s = requestsByOwner b s"
    by (simp add: requestsByOwner_def l n)
  have 9: "submitAccessRequest now (rb\<lparr>rb_requesterAddress := Some a\<rparr>) s
           = submitAccessRequest now (rb\<lparr>rb_requesterAddress := Some b\<rparr>) s"
    by (simp add: submitAccessRequest_def validateAccessRequest_def l split: option.splits)
  have 10: "submitAccessRequest now (rb\<lparr>rb_ownerAddress := Some a\<rparr>) s
           = submitAccessRequest now (rb\<lparr>rb_ownerAddress := Some b\<rparr>) s"
    by (simp add: submitAccessRequest_def validateAccessRequest_def l split: option.splits)
  show ?thesis using 1 2 3 4 5 6 7 8 9 10 by blast
qed

theorem case_insensitive_witness:
  "sameUpToCase ''0xAA'' ''0xaa''
   \<and> getUserByWalletAddress firstApproved ''0xAA''
       = Some \<lparr>u_id = 1, username = ''alice'', walletAddress = Some ''0xaa''\<rparr>
   \<and> getUserByWalletAddress firstApproved ''0xaa''
       = Some \<lparr>u_id = 1, username = ''alice'', walletAddress = Some ''0xaa''\<rparr>
   \<and> checkAccess 400 \<lparr>cb_courseId = Some 1, cb_walletAddress = Some ''0xAA''\<rparr> firstApproved
       = checkAccess 400 \<lparr>cb_courseId = Some 1, cb_walletAddress = Some ''0xaa''\<rparr> firstApproved
   \<and> requestsByOwner ''0xAA'' firstApproved = requestsByOwner ''0xaa'' firstApproved"
proof -
  have h: "sameUpToCase ''0xAA'' ''0xaa''" by code_simp
  have u: "getUserByWalletAddress firstApproved ''0xaa''
       = Some \<lparr>u_id = 1, username = ''alice'', walletAddress = Some ''0xaa''\<rparr>"
    unfolding firstApproved_eq by code_simp
  from case_insensitive [OF h, where s = firstApproved and now = 400 and c = "Some 1"] u h
  show ?thesis by simp
qed

subsection \<open>Liveness\<close>

lemma checkOwnerships_iff:
  "checkOwnerships now w accesses os \<longleftrightarrow>
     (\<exists>ownership \<in> set os. \<exists>access \<in> set accesses.
        ta_ownershipId access = o_id ownership \<and> toLowerCase (recipientAddress access) = w \<and>
        isEffectivelyActive access now)"
  by (induction os) (auto simp: list_ex_iff isEffectivelyActive_def)

text \<open>
  Claim C7. For every grant and every clock value, effective liveness is exactly
  \<open>isActive \<and> expiresAt > now\<close>, and a grant whose \<open>expiresAt\<close> equals \<open>now\<close> is not live.
  The active-grant lookup, the access check and the listing of shared courses test
  exactly this: each equals its reading with \<open>isEffectivelyActive\<close> in place of the inline
  test.
\<close>

theorem liveness_exact:
  "getActiveTemporaryAccess now s oid recipient =
     find (\<lambda>access. ta_ownershipId access = oid \<and>
                     toLowerCase (recipientAddress access) = toLowerCase recipient \<and>
                     isEffectivelyActive access now)
       (values_of (temporaryAccesses s))
   \<and> checkTemporaryAccess now s cid wallet =
       list_ex (\<lambda>ownership. o_courseId ownership = cid \<and>
          list_ex (\<lambda>access. ta_ownershipId access = o_id ownership \<and>
                     toLowerCase (recipientAddress access) = toLowerCase wallet \<and>
                     isEffectivelyActive access now)
            (values_of (temporaryAccesses s)))
         (values_of (ownerships s))
   \<and> getSharedCoursesForWallet now s wallet =
       sharedCoursesLoop s
         (filter (\<lambda>access. toLowerCase (recipientAddress access) = toLowerCase wallet \<and>
                            isEffectivelyActive access now)
            (values_of (temporaryAccesses s)))
   \<and> isEffectivelyActive grant now = (isActive grant \<and> now < expiresAt grant)
   \<and> \<not> isEffectivelyActive (grant\<lparr>expiresAt := now\<rparr>) now"
proof -
  have a: "getActiveTemporaryAccess now s oid recipient =
     find (\<lambda>access. ta_ownershipId access = oid \<and>
                     toLowerCase (recipientAddress access) = toLowerCase recipient \<and>
                     isEffectivelyActive access now)
       (values_of (temporaryAccesses s))"
    by (simp add: getActiveTemporaryAccess_def isEffectivelyActive_def)
  have b: "checkTemporaryAccess now s cid wallet =
       list_ex (\<lambda>ownership. o_courseId ownership = cid \<and>
          list_ex (\<lambda>access. ta_ownershipId access = o_id ownership \<and>
                     toLowerCase (recipientAddress access) = toLowerCase wallet \<and>
                     isEffectivelyActive access now)
            (values_of (temporaryAccesses s)))
         (values_of (ownerships s))"
    by (auto simp: checkTemporaryAccess_def checkOwnerships_iff list_ex_iff)
  have c: "getSharedCoursesForWallet now s wallet =
       sharedCoursesLoop s
         (filter (\<lambda>access. toLowerCase (recipientAddress access) = toLowerCase wallet \<and>
                            isEffectivelyActive access now)
            (values_of (temporaryAccesses s)))"
    by (simp add: getSharedCoursesForWallet_def isEffectivelyActive_def Let_def)
  show ?thesis using a b c by (simp add: isEffectivelyActive_def)
qed

subsection \<open>The access check\<close>

lemma checkTemporaryAccess_iff:
  "checkTemporaryAccess now s cid wallet \<longleftrightarrow>
     (\<exists>access \<in> set (values_of (temporaryAccesses s)). liveGrantFor s cid wallet now access)"
  by (auto simp: checkTemporaryAccess_def checkOwnerships_iff liveGrantFor_def list_ex_iff
        isEffectivelyActive_def toLowerCase_idem)

lemma not_owner_direct:
  assumes "\<not> ownsCourse s cid wallet"
  shows "(case getUserByWalletAddress s (toLowerCase wallet) of
            None \<Rightarrow> None
          | Some u \<Rightarrow> getNftOwnershipByCourseAndOwner s cid (u_id u)) = None"
proof (cases "getUserByWalletAddress s (toLowerCase wallet)")
  case None
  then show ?thesis by simp
next
  case (Some u)
  then have "u \<in> set (values_of (users s))"
    and "map_option toLowerCase (walletAddress u) = Some (toLowerCase wallet)"
    by (auto simp: getUserByWalletAddress_def find_Some_iff toLowerCase_idem)
  with assms have "\<forall>ownership \<in> set (values_of (ownerships s)).
      \<not> (o_courseId ownership = cid \<and> ownerId ownership = u_id u)"
    by (auto simp: ownsCourse_def list_ex_iff)
  then show ?thesis using Some
    by (simp add: getNftOwnershipByCourseAndOwner_def find_None_iff_not)
qed

lemma checkAccess_not_owner:
  assumes "cid \<noteq> 0" "wallet \<noteq> []" "\<not> ownsCourse s cid wallet"
  shows "checkAccess now \<lparr>cb_courseId = Some cid, cb_walletAddress = Some wallet\<rparr> s =
     (if \<exists>access \<in> set (values_of (temporaryAccesses s)). liveGrantFor s cid wallet now access
      then Response 200 (CheckJson True (Some ''temporary''))
      else Response 200 (CheckJson False None))"
  using assms not_owner_direct [OF assms(3)]
  by (simp add: checkAccess_def falsyString_def Let_def checkTemporaryAccess_iff [symmetric]
        checkTemporaryAccess_def toLowerCase_idem)

lemma ownsCourse_frame [simp]:
  "ownsCourse (s\<lparr>temporaryAccesses := t\<rparr>) cid wallet = ownsCourse s cid wallet"
  by (simp add: ownsCourse_def)

lemma liveGrantFor_frame [simp]:
  "liveGrantFor (s\<lparr>temporaryAccesses := t\<rparr>) cid wallet now a = liveGrantFor s cid wallet now a"
  by (simp add: liveGrantFor_def)

text \<open>
  Claim C5. Let the wallet hold no ownership of the course through any user registered
  with it, and let one grant, stored under the id \<open>g\<close>, be the only live grant of the
  course to the wallet at \<open>now\<close>. Then the access check answers
  \<open>{hasAccess: true, accessType: "temporary"}\<close>; after the grant is revoked, the same check
  answers \<open>{hasAccess: false}\<close> with no access type; and at any later clock value that
  has reached the grant's \<open>expiresAt\<close>, the same check on the unchanged store answers
  \<open>{hasAccess: false}\<close> too. The request names a course id other than 0 and a non-empty
  wallet (the route refuses the others), and the ids of the grant table are distinct, as
  the keys of a \<open>Map\<close> are.
\<close>

theorem temporary_access_lifecycle:
  assumes wf: "cid \<noteq> 0" "wallet \<noteq> []" "distinct (map fst (temporaryAccesses s))"
    and notOwner: "\<not> ownsCourse s cid wallet"
    and grant: "map_of (temporaryAccesses s) g = Some access" "liveGrantFor s cid wallet now access"
    and only: "\<forall>(k, other) \<in> set (temporaryAccesses s). k \<noteq> g \<longrightarrow> \<not> liveGrantFor s cid wallet now other"
    and later: "now \<le> later" "expiresAt access \<le> later"
  shows "checkAccess now \<lparr>cb_courseId = Some cid, cb_walletAddress = Some wallet\<rparr> s
           = Response 200 (CheckJson True (Some ''temporary''))
       \<and> checkAccess now \<lparr>cb_courseId = Some cid, cb_walletAddress = Some wallet\<rparr>
             (snd (revoke (Some g) s))
           = Response 200 (CheckJson False None)
       \<and> checkAccess later \<lparr>cb_courseId = Some cid, cb_walletAddress = Some wallet\<rparr> s
           = Response 200 (CheckJson False None)"
proof -
  have mem: "access \<in> set (values_of (temporaryAccesses s))"
    using grant(1) by (auto simp: values_of_def dest!: map_of_SomeD intro: rev_image_eqI)
  have 1: "checkAccess now \<lparr>cb_courseId = Some cid, cb_walletAddress = Some wallet\<rparr> s
           = Response 200 (CheckJson True (Some ''temporary''))"
    using checkAccess_not_owner [OF wf(1,2) notOwner, of now] mem grant(2) by auto
  have others: "\<And>k other. (k, other) \<in> set (temporaryAccesses s) \<Longrightarrow> other \<noteq> access
      \<Longrightarrow> \<not> liveGrantFor s cid wallet now other"
  proof -
    fix k other assume m: "(k, other) \<in> set (temporaryAccesses s)" and ne: "other \<noteq> access"
    have "k \<noteq> g"
    proof
      assume "k = g"
      with m wf(3) have "map_of (temporaryAccesses s) g = Some other" by simp
      with grant(1) ne show False by simp
    qed
    with only m show "\<not> liveGrantFor s cid wallet now other" by auto
  qed
  let ?s' = "snd (revoke (Some g) s)"
  have s': "?s' = s\<lparr>temporaryAccesses :=
              AList.update g (access\<lparr>isActive := False\<rparr>) (temporaryAccesses s)\<rparr>"
    using grant(1) by (simp add: revoke_def deactivateTemporaryAccess_def)
  have dead: "\<not> liveGrantFor s cid wallet now (access\<lparr>isActive := False\<rparr>)"
    by (simp add: liveGrantFor_def)
  have "\<forall>a \<in> set (values_of (temporaryAccesses ?s')). \<not> liveGrantFor ?s' cid wallet now a"
  proof
    fix a assume "a \<in> set (values_of (temporaryAccesses ?s'))"
    then have "a = access\<lparr>isActive := False\<rparr> \<or> (\<exists>k. (k, a) \<in> set (temporaryAccesses s) \<and> k \<noteq> g)"
      using values_update_distinct [OF wf(3) grant(1), of "access\<lparr>isActive := False\<rparr>"]
      by (auto simp: s')
    then show "\<not> liveGrantFor ?s' cid wallet now a"
      using dead only by (auto simp: s')
  qed
  moreover have "\<not> ownsCourse ?s' cid wallet" using notOwner by (simp add: s')
  ultimately have 2: "checkAccess now \<lparr>cb_courseId = Some cid, cb_walletAddress = Some wallet\<rparr> ?s'
           = Response 200 (CheckJson False None)"
    using checkAccess_not_owner [OF wf(1,2), of ?s' now] by simp
  have "\<forall>a \<in> set (values_of (temporaryAccesses s)). \<not> liveGrantFor s cid wallet later a"
  proof
    fix a assume a: "a \<in> set (values_of (temporaryAccesses s))"
    show "\<not> liveGrantFor s cid wallet later a"
    proof (cases "a = access")
      case True
      then show ?thesis using later(2) by (simp add: liveGrantFor_def)
    next
      case False
      from a obtain k where "(k, a) \<in> set (temporaryAccesses s)" by (auto simp: values_of_def)
      from others [OF this False] later(1) show ?thesis by (auto simp: liveGrantFor_def)
    qed
  qed
  then have 3: "checkAccess later \<lparr>cb_courseId = Some cid, cb_walletAddress = Some wallet\<rparr> s
           = Response 200 (CheckJson False None)"
    using checkAccess_not_owner [OF wf(1,2) notOwner, of later] by simp
  show ?thesis using 1 2 3 by blast
qed

theorem temporary_access_lifecycle_witness:
  "\<not> ownsCourse firstApproved 1 ''0xBB''
   \<and> map_of (temporaryAccesses firstApproved) 1 = Some (demoAccess 1 1 ''0xbb'' 604800300 True 300)
   \<and> liveGrantFor firstApproved 1 ''0xBB'' 400 (demoAccess 1 1 ''0xbb'' 604800300 True 300)
   \<and> checkAccess 400 \<lparr>cb_courseId = Some 1, cb_walletAddress = Some ''0xBB''\<rparr> firstApproved
       = Response 200 (CheckJson True (Some ''temporary''))
   \<and> checkAccess 400 \<lparr>cb_courseId = Some 1, cb_walletAddress = Some ''0xBB''\<rparr>
        (snd (revoke (Some 1) firstApproved))
       = Response 200 (CheckJson False None)
   \<and> checkAccess 604800300 \<lparr>cb_courseId = Some 1, cb_walletAddress = Some ''0xBB''\<rparr> firstApproved
       = Response 200 (CheckJson False None)"
proof -
  have wf: "(1::int) \<noteq> 0" "''0xBB'' \<noteq> []" by simp_all
  have d: "distinct (map fst (temporaryAccesses firstApproved))"
    unfolding firstApproved_eq by code_simp
  have n: "\<not> ownsCourse firstApproved 1 ''0xBB''"
    unfolding firstApproved_eq by code_simp
  have g: "map_of (temporaryAccesses firstApproved) 1
             = Some (demoAccess 1 1 ''0xbb'' 604800300 True 300)"
    unfolding firstApproved_eq by code_simp
  have l: "liveGrantFor firstApproved 1 ''0xBB'' 400 (demoAccess 1 1 ''0xbb'' 604800300 True 300)"
    unfolding firstApproved_eq by code_simp
  have only: "\<forall>(k, other) \<in> set (temporaryAccesses firstApproved).
                k \<noteq> 1 \<longrightarrow> \<not> liveGrantFor firstApproved 1 ''0xBB'' 400 other"
    unfolding firstApproved_eq by code_simp
  have t: "(400::int) \<le> 604800300"
    "expiresAt (demoAccess 1 1 ''0xbb'' 604800300 True 300) \<le> 604800300"
    by (simp_all add: demoAccess_def)
  from temporary_access_lifecycle [OF wf d n g l only t] n g l show ?thesis by simp
qed




subsection \<open>Sharing\<close>

lemma share_success:
  assumes "share t b s = (Response 201 (AccessJson access), s1)"
  obtains k r e where
    "sb_ownershipId b = Some k" "sb_recipientAddress b = Some r" "r \<noteq> []" "sb_expiresAt b = Some e"
    "getNftOwnership s k \<noteq> None"
    "getActiveTemporaryAccess t s k (toLowerCase r) = None"
    "(access, s1) = createTemporaryAccess t
        \<lparr>it_ownershipId = k, it_recipientAddress = toLowerCase r, it_expiresAt = e\<rparr> s"
  using assms
  by (auto simp: share_def falsyString_def Let_def
      split: if_splits option.splits prod.splits)

lemma share_when_free:
  assumes "r \<noteq> []" "getNftOwnership s k \<noteq> None" "getActiveTemporaryAccess t s k r = None"
  shows "share t \<lparr>sb_ownershipId = Some k, sb_recipientAddress = Some r, sb_expiresAt = Some e\<rparr> s =
     (let (access, s') = createTemporaryAccess t
            \<lparr>it_ownershipId = k, it_recipientAddress = toLowerCase r, it_expiresAt = e\<rparr> s
      in (Response 201 (AccessJson access), s'))"
  using assms
  by (auto simp: share_def falsyString_def Let_def getActiveTemporaryAccess_def toLowerCase_idem
      split: option.splits)

text \<open>
  Claim C8. Let a first share of ownership \<open>k\<close> to recipient \<open>r\<close>, expiring at \<open>e\<close>,
  succeed at time \<open>t1\<close>. A second share of \<open>k\<close> to the same recipient (in any letter
  case) while the first grant is live, that is at a time before \<open>e\<close>, is refused with 400
  "Active temporary access already exists for this recipient" and changes nothing. After
  the first grant is revoked, and also once the clock has reached \<open>e\<close>, the second share
  succeeds with 201 and stores a new grant. The clock does not run backwards
  (\<open>t1 \<le> t2\<close>).
\<close>

theorem duplicate_grant:
  assumes first: "share t1 \<lparr>sb_ownershipId = Some k, sb_recipientAddress = Some r,
                            sb_expiresAt = Some e\<rparr> s
                  = (Response 201 (AccessJson access), s1)"
    and same: "toLowerCase r' = toLowerCase r"
  shows "(t2 < e \<longrightarrow>
            share t2 \<lparr>sb_ownershipId = Some k, sb_recipientAddress = Some r',
                      sb_expiresAt = Some e'\<rparr> s1
            = (Response 400 (Message ''Active temporary access already exists for this recipient''),
               s1))
       \<and> (t1 \<le> t2 \<longrightarrow>
            share t2 \<lparr>sb_ownershipId = Some k, sb_recipientAddress = Some r',
                      sb_expiresAt = Some e'\<rparr> (snd (revoke (Some (ta_id access)) s1))
            = (let (second, s2) = createTemporaryAccess t2
                      \<lparr>it_ownershipId = k, it_recipientAddress = toLowerCase r',
                       it_expiresAt = e'\<rparr> (snd (revoke (Some (ta_id access)) s1))
               in (Response 201 (AccessJson second), s2)))
       \<and> (t1 \<le> t2 \<and> e \<le> t2 \<longrightarrow>
            share t2 \<lparr>sb_ownershipId = Some k, sb_recipientAddress = Some r',
                      sb_expiresAt = Some e'\<rparr> s1
            = (let (second, s2) = createTemporaryAccess t2
                      \<lparr>it_ownershipId = k, it_recipientAddress = toLowerCase r',
                       it_expiresAt = e'\<rparr> s1
               in (Response 201 (AccessJson second), s2)))"
proof -
  from first have rne: "r \<noteq> []" and own: "getNftOwnership s k \<noteq> None"
    and free: "getActiveTemporaryAccess t1 s k (toLowerCase r) = None"
    and made: "(access, s1) = createTemporaryAccess t1
        \<lparr>it_ownershipId = k, it_recipientAddress = toLowerCase r, it_expiresAt = e\<rparr> s"
    by (auto elim!: share_success)
  let ?i = "temporaryAccessId s"
  have acc: "access = \<lparr>ta_id = ?i, ta_ownershipId = k, recipientAddress = toLowerCase r,
                       expiresAt = e, isActive = True, ta_createdAt = t1\<rparr>"
    and s1: "s1 = s\<lparr>temporaryAccessId := ?i + 1,
                    temporaryAccesses := AList.update ?i access (temporaryAccesses s)\<rparr>"
    using made by (simp_all add: createTemporaryAccess_def Let_def)
  have r'ne: "r' \<noteq> []" using same rne toLowerCase_Nil_iff by metis
  have own1: "getNftOwnership s1 k \<noteq> None" using own by (simp add: s1 getNftOwnership_def)
  have old: "\<forall>a \<in> set (values_of (temporaryAccesses s)).
      \<not> (ta_ownershipId a = k \<and> toLowerCase (recipientAddress a) = toLowerCase r \<and> isActive a
         \<and> t1 < expiresAt a)"
    using free by (simp add: getActiveTemporaryAccess_def find_None_iff_not toLowerCase_idem)
  have in1: "access \<in> set (values_of (temporaryAccesses s1))"
    by (simp add: s1 values_update_new)
  have sub1: "set (values_of (temporaryAccesses s1)) \<subseteq> insert access (set (values_of (temporaryAccesses s)))"
    by (simp add: s1 values_update_subset)
  have A: "share t2 \<lparr>sb_ownershipId = Some k, sb_recipientAddress = Some r',
                      sb_expiresAt = Some e'\<rparr> s1
            = (Response 400 (Message ''Active temporary access already exists for this recipient''),
               s1)" if "t2 < e"
  proof -
    have "\<exists>y. getActiveTemporaryAccess t2 s1 k (toLowerCase r') = Some y"
      unfolding getActiveTemporaryAccess_def Let_def
      using in1 that same by (intro find_Some_ex [of access]) (simp_all add: acc toLowerCase_idem)
    then show ?thesis using r'ne own1
      by (auto simp: share_def falsyString_def Let_def split: option.splits)
  qed
  let ?s' = "snd (revoke (Some (ta_id access)) s1)"
  have look: "map_of (temporaryAccesses s1) ?i = Some access"
    by (simp add: s1 map_of_update_same)
  have s': "?s' = s1\<lparr>temporaryAccesses :=
              AList.update ?i (access\<lparr>isActive := False\<rparr>) (temporaryAccesses s1)\<rparr>"
    using look by (simp add: revoke_def deactivateTemporaryAccess_def acc)
  have B: "share t2 \<lparr>sb_ownershipId = Some k, sb_recipientAddress = Some r',
                      sb_expiresAt = Some e'\<rparr> ?s'
            = (let (second, s2) = createTemporaryAccess t2
                      \<lparr>it_ownershipId = k, it_recipientAddress = toLowerCase r',
                       it_expiresAt = e'\<rparr> ?s'
               in (Response 201 (AccessJson second), s2))" if "t1 \<le> t2"
  proof -
    have sub': "set (values_of (temporaryAccesses ?s')) \<subseteq>
            insert (access\<lparr>isActive := False\<rparr>) (set (values_of (temporaryAccesses s)))"
    proof -
      have "temporaryAccesses ?s' =
              AList.update ?i (access\<lparr>isActive := False\<rparr>) (temporaryAccesses s1)"
        by (subst s') simp
      also have "\<dots> = AList.update ?i (access\<lparr>isActive := False\<rparr>) (temporaryAccesses s)"
        by (subst s1) simp
      finally show ?thesis
        using values_update_subset [of ?i "access\<lparr>isActive := False\<rparr>" "temporaryAccesses s"]
        by simp
    qed
    have "\<forall>a \<in> set (values_of (temporaryAccesses ?s')).
      \<not> (ta_ownershipId a = k \<and> toLowerCase (recipientAddress a) = toLowerCase r' \<and> isActive a
         \<and> t2 < expiresAt a)"
    proof
      fix a assume "a \<in> set (values_of (temporaryAccesses ?s'))"
      with sub' have "a = access\<lparr>isActive := False\<rparr> \<or> a \<in> set (values_of (temporaryAccesses s))"
        by auto
      then show "\<not> (ta_ownershipId a = k \<and> toLowerCase (recipientAddress a) = toLowerCase r' \<and> isActive a
         \<and> t2 < expiresAt a)"
        using old that same by auto
    qed
    then have "getActiveTemporaryAccess t2 ?s' k r' = None"
      by (simp add: getActiveTemporaryAccess_def find_None_iff_not)
    moreover have "getNftOwnership ?s' k \<noteq> None"
      using own1 by (simp add: s' getNftOwnership_def)
    ultimately show ?thesis using share_when_free [OF r'ne] by blast
  qed
  have C: "share t2 \<lparr>sb_ownershipId = Some k, sb_recipientAddress = Some r',
                      sb_expiresAt = Some e'\<rparr> s1
            = (let (second, s2) = createTemporaryAccess t2
                      \<lparr>it_ownershipId = k, it_recipientAddress = toLowerCase r',
                       it_expiresAt = e'\<rparr> s1
               in (Response 201 (AccessJson second), s2))" if "t1 \<le> t2" "e \<le> t2"
  proof -
    have "\<forall>a \<in> set (values_of (temporaryAccesses s1)).
      \<not> (ta_ownershipId a = k \<and> toLowerCase (recipientAddress a) = toLowerCase r' \<and> isActive a
         \<and> t2 < expiresAt a)"
    proof
      fix a assume "a \<in> set (values_of (temporaryAccesses s1))"
      with sub1 have "a = access \<or> a \<in> set (values_of (temporaryAccesses s))" by auto
      then show "\<not> (ta_ownershipId a = k \<and> toLowerCase (recipientAddress a) = toLowerCase r' \<and> isActive a
         \<and> t2 < expiresAt a)"
      proof
        assume "a = access"
        moreover have "expiresAt access = e" by (simp add: acc)
        ultimately show ?thesis using that by simp
      next
        assume "a \<in> set (values_of (temporaryAccesses s))"
        then show ?thesis using old that same by auto
      qed
    qed
    then have "getActiveTemporaryAccess t2 s1 k r' = None"
      by (simp add: getActiveTemporaryAccess_def find_None_iff_not)
    from share_when_free [OF r'ne own1 this] show ?thesis .
  qed
  show ?thesis using A B C by blast
qed

theorem duplicate_grant_witness:
  "share 400 \<lparr>sb_ownershipId = Some 1, sb_recipientAddress = Some ''0xBB'',
              sb_expiresAt = Some 1000\<rparr> aliceStore
     = (Response 201 (AccessJson (demoAccess 1 1 ''0xbb'' 1000 True 400)),
        aliceWith [(1, demoAccess 1 1 ''0xbb'' 1000 True 400)] [])
   \<and> share 500 \<lparr>sb_ownershipId = Some 1, sb_recipientAddress = Some ''0xbb'',
                sb_expiresAt = Some 2000\<rparr>
        (aliceWith [(1, demoAccess 1 1 ''0xbb'' 1000 True 400)] [])
     = (Response 400 (Message ''Active temporary access already exists for this recipient''),
        aliceWith [(1, demoAccess 1 1 ''0xbb'' 1000 True 400)] [])
   \<and> share 500 \<lparr>sb_ownershipId = Some 1, sb_recipientAddress = Some ''0xbb'',
                sb_expiresAt = Some 2000\<rparr>
        (snd (revoke (Some 1) (aliceWith [(1, demoAccess 1 1 ''0xbb'' 1000 True 400)] [])))
     = (Response 201 (AccessJson (demoAccess 2 1 ''0xbb'' 2000 True 500)),
        aliceWith [(1, demoAccess 1 1 ''0xbb'' 1000 False 400),
                   (2, demoAccess 2 1 ''0xbb'' 2000 True 500)] [])
   \<and> share 1000 \<lparr>sb_ownershipId = Some 1, sb_recipientAddress = Some ''0xbb'',
                 sb_expiresAt = Some 2000\<rparr>
        (aliceWith [(1, demoAccess 1 1 ''0xbb'' 1000 True 400)] [])
     = (Response 201 (AccessJson (demoAccess 2 1 ''0xbb'' 2000 True 1000)),
        aliceWith [(1, demoAccess 1 1 ''0xbb'' 1000 True 400),
                   (2, demoAccess 2 1 ''0xbb'' 2000 True 1000)] [])"
proof -
  let ?s1 = "aliceWith [(1, demoAccess 1 1 ''0xbb'' 1000 True 400)] []"
  have first: "share 400 \<lparr>sb_ownershipId = Some 1, sb_recipientAddress = Some ''0xBB'',
              sb_expiresAt = Some 1000\<rparr> aliceStore
     = (Response 201 (AccessJson (demoAccess 1 1 ''0xbb'' 1000 True 400)), ?s1)"
    unfolding aliceStore_eq by code_simp
  have same: "toLowerCase ''0xbb'' = toLowerCase ''0xBB''" by code_simp
  have i: "ta_id (demoAccess 1 1 ''0xbb'' 1000 True 400) = 1" by (simp add: demoAccess_def)
  have c1: "createTemporaryAccess 500
              \<lparr>it_ownershipId = 1, it_recipientAddress = toLowerCase ''0xbb'', it_expiresAt = 2000\<rparr>
              (snd (revoke (Some 1) ?s1))
            = (demoAccess 2 1 ''0xbb'' 2000 True 500,
               aliceWith [(1, demoAccess 1 1 ''0xbb'' 1000 False 400),
                          (2, demoAccess 2 1 ''0xbb'' 2000 True 500)] [])"
    by code_simp
  have c2: "createTemporaryAccess 1000
              \<lparr>it_ownershipId = 1, it_recipientAddress = toLowerCase ''0xbb'', it_expiresAt = 2000\<rparr>
              ?s1
            = (demoAccess 2 1 ''0xbb'' 2000 True 1000,
               aliceWith [(1, demoAccess 1 1 ''0xbb'' 1000 True 400),
                          (2, demoAccess 2 1 ''0xbb'' 2000 True 1000)] [])"
    by code_simp
  have t: "(500::int) < 1000" "(400::int) \<le> 500" "(400::int) \<le> 1000 \<and> (1000::int) \<le> 1000"
    by simp_all
  from duplicate_grant [OF first same, where ?t2.0 = 500 and e' = 2000] t(1,2)
  have a: "share 500 \<lparr>sb_ownershipId = Some 1, sb_recipientAddress = Some ''0xbb'',
                sb_expiresAt = Some 2000\<rparr> ?s1
     = (Response 400 (Message ''Active temporary access already exists for this recipient''), ?s1)"
    and b: "share 500 \<lparr>sb_ownershipId = Some 1, sb_recipientAddress = Some ''0xbb'',
                sb_expiresAt = Some 2000\<rparr> (snd (revoke (Some 1) ?s1))
     = (Response 201 (AccessJson (demoAccess 2 1 ''0xbb'' 2000 True 500)),
        aliceWith [(1, demoAccess 1 1 ''0xbb'' 1000 False 400),
                   (2, demoAccess 2 1 ''0xbb'' 2000 True 500)] [])"
    by (simp_all add: i c1)
  from duplicate_grant [OF first same, where ?t2.0 = 1000 and e' = 2000] t(3)
  have c: "share 1000 \<lparr>sb_ownershipId = Some 1, sb_recipientAddress = Some ''0xbb'',
                 sb_expiresAt = Some 2000\<rparr> ?s1
     = (Response 201 (AccessJson (demoAccess 2 1 ''0xbb'' 2000 True 1000)),
        aliceWith [(1, demoAccess 1 1 ''0xbb'' 1000 True 400),
                   (2, demoAccess 2 1 ''0xbb'' 2000 True 1000)] [])"
    by (simp add: c2)
  show ?thesis using first a b c by blast
qed

lemma share_created_or_unchanged:
  "(\<exists>access s'. share now b s = (Response 201 (AccessJson access), s')) \<or>
   snd (share now b s) = s"
  by (auto simp: share_def Let_def split: option.splits prod.splits)

lemma share_outcome:
  "snd (share now b s) = s \<or>
   (\<exists>k r e. r \<noteq> [] \<and> getActiveTemporaryAccess now s k (toLowerCase r) = None \<and>
      snd (share now b s) =
        snd (createTemporaryAccess now
               \<lparr>it_ownershipId = k, it_recipientAddress = toLowerCase r, it_expiresAt = e\<rparr> s))"
proof (cases "\<exists>access s'. share now b s = (Response 201 (AccessJson access), s')")
  case True
  then obtain access s' where ok: "share now b s = (Response 201 (AccessJson access), s')"
    by blast
  from ok obtain k r e where "r \<noteq> []"
    "getActiveTemporaryAccess now s k (toLowerCase r) = None"
    "(access, s') = createTemporaryAccess now
        \<lparr>it_ownershipId = k, it_recipientAddress = toLowerCase r, it_expiresAt = e\<rparr> s"
    by (rule share_success)
  then show ?thesis using ok by (metis snd_conv)
next
  case False
  then show ?thesis using share_created_or_unchanged [of now b s] by blast
qed

lemma share_keeps_live_grants_unique:
  assumes fresh: "temporaryAccessId s \<notin> fst ` set (temporaryAccesses s)"
    and inv: "\<And>oid r. length (liveGrants now s oid r) \<le> 1"
  shows "length (liveGrants now (snd (share now b s)) oid r) \<le> 1"
proof -
  from share_outcome [of now b s] show ?thesis
  proof
    assume "snd (share now b s) = s"
    then show ?thesis using inv by simp
  next
    assume "\<exists>k r e. r \<noteq> [] \<and> getActiveTemporaryAccess now s k (toLowerCase r) = None \<and>
      snd (share now b s) =
        snd (createTemporaryAccess now
               \<lparr>it_ownershipId = k, it_recipientAddress = toLowerCase r, it_expiresAt = e\<rparr> s)"
    then obtain k rr e where free: "getActiveTemporaryAccess now s k (toLowerCase rr) = None"
      and s': "snd (share now b s) =
        snd (createTemporaryAccess now
               \<lparr>it_ownershipId = k, it_recipientAddress = toLowerCase rr, it_expiresAt = e\<rparr> s)"
      by blast
    let ?access = "\<lparr>ta_id = temporaryAccessId s, ta_ownershipId = k,
                    recipientAddress = toLowerCase rr, expiresAt = e, isActive = True,
                    ta_createdAt = now\<rparr>"
    have vals: "values_of (temporaryAccesses (snd (share now b s)))
                  = values_of (temporaryAccesses s) @ [?access]"
      by (simp add: s' createTemporaryAccess_def Let_def update_fresh [OF fresh] values_of_def)
    have none: "liveGrants now s k (toLowerCase rr) = []"
      using free
      by (auto simp: liveGrants_def getActiveTemporaryAccess_def find_None_iff_not filter_empty_conv
            isEffectivelyActive_def toLowerCase_idem)
    show ?thesis
    proof (cases "oid = k \<and> r = toLowerCase rr")
      case True
      then show ?thesis using none by (simp add: liveGrants_def vals)
    next
      case False
      then have "liveGrants now (snd (share now b s)) oid r = liveGrants now s oid r"
        by (auto simp: liveGrants_def vals)
      then show ?thesis using inv by simp
    qed
  qed
qed

subsection \<open>Revocation\<close>

text \<open>
  Claim C10. Revoking an existing grant returns true (the route answers 200), also when
  the grant is already inactive; the row stored under the id is the old row with
  \<open>isActive\<close> false and every other field as before; every other id maps to the row it
  mapped to, the order of the rows and the rest of the store are unchanged. Revoking an
  id that is not in the store returns false (the route answers 404) and leaves the store
  as it was.
\<close>

theorem revoke_frame:
  "(\<forall>access. map_of (temporaryAccesses s) i = Some access \<longrightarrow>
      (let (deactivated, s') = deactivateTemporaryAccess i s
       in deactivated
          \<and> map_of (temporaryAccesses s') i = Some (access\<lparr>isActive := False\<rparr>)
          \<and> (\<forall>j. j \<noteq> i \<longrightarrow> map_of (temporaryAccesses s') j = map_of (temporaryAccesses s) j)
          \<and> map fst (temporaryAccesses s') = map fst (temporaryAccesses s)
          \<and> s' = s\<lparr>temporaryAccesses := temporaryAccesses s'\<rparr>
          \<and> revoke (Some i) s
              = (Response 200 (Message ''Temporary access revoked successfully''), s')))
   \<and> (map_of (temporaryAccesses s) i = None \<longrightarrow>
        deactivateTemporaryAccess i s = (False, s)
        \<and> revoke (Some i) s = (Response 404 (Message ''Temporary access not found''), s))"
  by (simp add: deactivateTemporaryAccess_def revoke_def map_of_update_other map_of_update_same
        keys_update_present)

theorem revoke_frame_witness:
  "revoke (Some 1) demoGrants
     = (Response 200 (Message ''Temporary access revoked successfully''),
        demoGrants\<lparr>temporaryAccesses :=
          [(1, demoAccess 1 1 ''0xab'' 500 False 0), (2, demoAccess 2 1 ''0xcd'' 900 False 0)]\<rparr>)
   \<and> revoke (Some 2) demoGrants
     = (Response 200 (Message ''Temporary access revoked successfully''), demoGrants)
   \<and> revoke (Some 7) demoGrants
     = (Response 404 (Message ''Temporary access not found''), demoGrants)"
  using revoke_frame [of demoGrants 1] revoke_frame [of demoGrants 2] revoke_frame [of demoGrants 7]
  by (simp add: demoGrants_def demoAccess_def newStorage_def deactivateTemporaryAccess_def)

subsection \<open>Submitting a request\<close>

text \<open>
  Claim C3 says that a submission with a duration outside 1..90 fails and creates no
  request. The route validates the body against the insert schema only, which puts no
  bound on \<open>requestDuration\<close>: a submission with duration 0, and one with 91, is answered
  201 and stored as a pending request. The bound is enforced by the request form alone,
  which refuses 0 and 91 and lets 1 and 90 through.
\<close>

theorem submit_accepts_any_duration:
  "submitAccessRequest 200 (bobAsks\<lparr>rb_requestDuration := Some 0\<rparr>) aliceStore
     = (Response 201 (RequestJson (Some ((demoRequest 1 1 ''0xaa'' ''pending'' 200)\<lparr>requestDuration := 0\<rparr>))),
        storeRequest 1 ((demoRequest 1 1 ''0xaa'' ''pending'' 200)\<lparr>requestDuration := 0\<rparr>)
          (aliceStore\<lparr>accessRequestId := 2\<rparr>))
   \<and> submitAccessRequest 200 (bobAsks\<lparr>rb_requestDuration := Some 91\<rparr>) aliceStore
     = (Response 201 (RequestJson (Some ((demoRequest 1 1 ''0xaa'' ''pending'' 200)\<lparr>requestDuration := 91\<rparr>))),
        storeRequest 1 ((demoRequest 1 1 ''0xaa'' ''pending'' 200)\<lparr>requestDuration := 91\<rparr>)
          (aliceStore\<lparr>accessRequestId := 2\<rparr>))
   \<and> formDurationRejected 0 \<and> formDurationRejected 91
   \<and> \<not> formDurationRejected 1 \<and> \<not> formDurationRejected 90"
  unfolding aliceStore_eq by code_simp

subsection \<open>Updating the status of a request\<close>

lemma getUser_frame [simp]:
  "getUserByWalletAddress (s\<lparr>accessRequests := t\<rparr>) w = getUserByWalletAddress s w"
  by (simp add: getUserByWalletAddress_def)

lemma getOwnership_frame [simp]:
  "getNftOwnershipByCourseAndOwner (s\<lparr>accessRequests := t\<rparr>) c u
     = getNftOwnershipByCourseAndOwner s c u"
  by (simp add: getNftOwnershipByCourseAndOwner_def)

lemma updateAccessRequestStatus_found:
  "getAccessRequestById s i = Some request \<Longrightarrow>
   updateAccessRequestStatus now i st s
     = (Some (withStatus request st now), storeRequest i (withStatus request st now) s)"
  by (simp add: updateAccessRequestStatus_def getAccessRequestById_def Let_def)

lemma stored_request: "getAccessRequestById (storeRequest i request s) i = Some request"
  by (simp add: getAccessRequestById_def map_of_update_same)

lemma approve_cases:
  assumes "getAccessRequestById s i = Some request"
  shows "updateStatusWith create now (Some i) (Some ''approved'') s =
     (let approved = withStatus request ''approved'' now; s1 = storeRequest i approved s
      in case getUserByWalletAddress s (ownerAddress request) of
           None \<Rightarrow> (Response 404 (Message ''Owner user not found''), s1)
         | Some u \<Rightarrow>
            (case getNftOwnershipByCourseAndOwner s (ar_courseId request) (u_id u) of
               None \<Rightarrow> (Response 404 (Message ''Owner does not own this course''), s1)
             | Some ownership \<Rightarrow>
                (case create now \<lparr>it_ownershipId = o_id ownership,
                                   it_recipientAddress = requesterAddress request,
                                   it_expiresAt = addDays now (requestDuration request)\<rparr> s1 of
                   Inr (access, s2) \<Rightarrow>
                     (Response 200 (RequestGrantedJson (Some approved)
                        (addDays now (requestDuration request))), s2)
                 | Inl accessError \<Rightarrow>
                     (Response 200 (RequestNotGrantedJson (Some approved) accessError), s1))))"
  using assms
  by (simp add: updateStatusWith_def falsyString_def updateAccessRequestStatus_found Let_def
      split: option.splits sum.splits prod.splits)




subsection \<open>Approval\<close>

lemma grantStepFailed_persisted:
  assumes "updateStatusWith create now rid st s0 = (resp, s')" "grantStepFailed resp"
  shows "\<exists>j r. rid = Some j \<and> st = Some ''approved'' \<and> getAccessRequestById s0 j = Some r \<and>
               s' = storeRequest j (withStatus r ''approved'' now) s0"
proof (cases rid)
  case None
  with assms show ?thesis by (auto simp: updateStatusWith_def)
next
  case (Some j)
  show ?thesis
  proof (cases "falsyString st \<or> the st \<notin> set [''pending'', ''approved'', ''rejected'']")
    case True
    with assms Some show ?thesis by (auto simp: updateStatusWith_def)
  next
    case valid: False
    show ?thesis
    proof (cases "getAccessRequestById s0 j")
      case None
      with assms Some valid show ?thesis by (auto simp: updateStatusWith_def)
    next
      case (Some r)
      show ?thesis
      proof (cases "the st = ''approved''")
        case False
        with assms \<open>rid = Some j\<close> valid Some show ?thesis
          by (auto simp: updateStatusWith_def updateAccessRequestStatus_found)
      next
        case True
        with valid have st: "st = Some ''approved''" by (cases st) (auto simp: falsyString_def)
        from assms show ?thesis
          unfolding \<open>rid = Some j\<close> st approve_cases [OF Some]
          using Some
          by (auto simp: Let_def split: option.splits sum.splits prod.splits)
      qed
    qed
  qed
qed

text \<open>
  Claim C4. Approving a request writes the status \<open>approved\<close> before the grant step, and
  a failure of the grant step does not undo it. When the owner address resolves to no
  user the route answers 404 "Owner user not found"; when the resolved owner holds no
  ownership of the course it answers 404 "Owner does not own this course"; when the
  creation of the grant throws it answers 200 with the approved request,
  \<open>accessGranted: false\<close> and the error's message. In each case the store is the old store
  with the request approved. Conversely, whenever the route gives one of these three
  answers the request exists and is stored approved: no call that changes nothing (an
  invalid id, an invalid status, an unknown request) gives such an answer.
\<close>

theorem approval_partial_failure:
  assumes "getAccessRequestById s i = Some request"
  shows "(getUserByWalletAddress s (ownerAddress request) = None \<longrightarrow>
            updateStatusWith create now (Some i) (Some ''approved'') s
              = (Response 404 (Message ''Owner user not found''),
                 storeRequest i (withStatus request ''approved'' now) s))
       \<and> (getUserByWalletAddress s (ownerAddress request) = Some u \<and>
          getNftOwnershipByCourseAndOwner s (ar_courseId request) (u_id u) = None \<longrightarrow>
            updateStatusWith create now (Some i) (Some ''approved'') s
              = (Response 404 (Message ''Owner does not own this course''),
                 storeRequest i (withStatus request ''approved'' now) s))
       \<and> (getUserByWalletAddress s (ownerAddress request) = Some u \<and>
          getNftOwnershipByCourseAndOwner s (ar_courseId request) (u_id u) = Some ownership \<and>
          create now \<lparr>it_ownershipId = o_id ownership,
                      it_recipientAddress = requesterAddress request,
                      it_expiresAt = addDays now (requestDuration request)\<rparr>
            (storeRequest i (withStatus request ''approved'' now) s) = Inl accessError \<longrightarrow>
            updateStatusWith create now (Some i) (Some ''approved'') s
              = (Response 200
                   (RequestNotGrantedJson (Some (withStatus request ''approved'' now)) accessError),
                 storeRequest i (withStatus request ''approved'' now) s))
       \<and> getAccessRequestById (storeRequest i (withStatus request ''approved'' now) s) i
           = Some (withStatus request ''approved'' now)
       \<and> status (withStatus request ''approved'' now) = ''approved''
       \<and> (updateStatusWith create now rid st s0 = (resp, s') \<and> grantStepFailed resp \<longrightarrow>
            (\<exists>j r. rid = Some j \<and> getAccessRequestById s0 j = Some r \<and>
                   getAccessRequestById s' j = Some (withStatus r ''approved'' now)))"
proof -
  note ac = approve_cases [OF assms, of create now]
  have 1: "getUserByWalletAddress s (ownerAddress request) = None \<longrightarrow>
            updateStatusWith create now (Some i) (Some ''approved'') s
              = (Response 404 (Message ''Owner user not found''),
                 storeRequest i (withStatus request ''approved'' now) s)"
    by (simp add: ac Let_def)
  have 2: "getUserByWalletAddress s (ownerAddress request) = Some u \<and>
          getNftOwnershipByCourseAndOwner s (ar_courseId request) (u_id u) = None \<longrightarrow>
            updateStatusWith create now (Some i) (Some ''approved'') s
              = (Response 404 (Message ''Owner does not own this course''),
                 storeRequest i (withStatus request ''approved'' now) s)"
    by (simp add: ac Let_def)
  have 3: "getUserByWalletAddress s (ownerAddress request) = Some u \<and>
          getNftOwnershipByCourseAndOwner s (ar_courseId request) (u_id u) = Some ownership \<and>
          create now \<lparr>it_ownershipId = o_id ownership,
                      it_recipientAddress = requesterAddress request,
                      it_expiresAt = addDays now (requestDuration request)\<rparr>
            (storeRequest i (withStatus request ''approved'' now) s) = Inl accessError \<longrightarrow>
            updateStatusWith create now (Some i) (Some ''approved'') s
              = (Response 200
                   (RequestNotGrantedJson (Some (withStatus request ''approved'' now)) accessError),
                 storeRequest i (withStatus request ''approved'' now) s)"
    by (simp add: ac Let_def)
  have 4: "getAccessRequestById (storeRequest i (withStatus request ''approved'' now) s) i
           = Some (withStatus request ''approved'' now)"
    by (rule stored_request)
  have 5: "updateStatusWith create now rid st s0 = (resp, s') \<and> grantStepFailed resp \<longrightarrow>
            (\<exists>j r. rid = Some j \<and> getAccessRequestById s0 j = Some r \<and>
                   getAccessRequestById s' j = Some (withStatus r ''approved'' now))"
    using grantStepFailed_persisted [of create now rid st s0 resp s'] stored_request
    by blast
  show ?thesis using 1 2 3 4 5 by simp
qed

theorem approval_partial_failure_witness:
  "updateStatus 300 (Some 1) (Some ''approved'') strayRequests
     = (Response 404 (Message ''Owner user not found''),
        storeRequest 1 (withStatus (demoRequest 1 1 ''0xcc'' ''pending'' 201) ''approved'' 300)
          strayRequests)
   \<and> updateStatus 300 (Some 2) (Some ''approved'') strayRequests
     = (Response 404 (Message ''Owner does not own this course''),
        storeRequest 2 (withStatus (demoRequest 2 2 ''0xaa'' ''pending'' 202) ''approved'' 300)
          strayRequests)
   \<and> updateStatusWith failingCreate 300 (Some 3) (Some ''approved'') strayRequests
     = (Response 200
          (RequestNotGrantedJson
             (Some (withStatus (demoRequest 3 1 ''0xaa'' ''pending'' 203) ''approved'' 300))
             ''storage unavailable''),
        storeRequest 3 (withStatus (demoRequest 3 1 ''0xaa'' ''pending'' 203) ''approved'' 300)
          strayRequests)
   \<and> map_option status
        (getAccessRequestById
           (snd (updateStatusWith failingCreate 300 (Some 3) (Some ''approved'') strayRequests)) 3)
     = Some ''approved''"
proof -
  let ?mem = "\<lambda>now ins s. Inr (createTemporaryAccess now ins s)"
  have r1: "getAccessRequestById strayRequests 1 = Some (demoRequest 1 1 ''0xcc'' ''pending'' 201)"
    unfolding strayRequests_eq by code_simp
  have r2: "getAccessRequestById strayRequests 2 = Some (demoRequest 2 2 ''0xaa'' ''pending'' 202)"
    unfolding strayRequests_eq by code_simp
  have r3: "getAccessRequestById strayRequests 3 = Some (demoRequest 3 1 ''0xaa'' ''pending'' 203)"
    unfolding strayRequests_eq by code_simp
  have n1: "getUserByWalletAddress strayRequests
              (ownerAddress (demoRequest 1 1 ''0xcc'' ''pending'' 201)) = None"
    unfolding strayRequests_eq by code_simp
  have u2: "getUserByWalletAddress strayRequests
              (ownerAddress (demoRequest 2 2 ''0xaa'' ''pending'' 202))
            = Some \<lparr>u_id = 1, username = ''alice'', walletAddress = Some ''0xaa''\<rparr>"
    unfolding strayRequests_eq by code_simp
  have n2: "getNftOwnershipByCourseAndOwner strayRequests
              (ar_courseId (demoRequest 2 2 ''0xaa'' ''pending'' 202))
              (u_id \<lparr>u_id = 1, username = ''alice'', walletAddress = Some ''0xaa''\<rparr>) = None"
    unfolding strayRequests_eq by code_simp
  have u3: "getUserByWalletAddress strayRequests
              (ownerAddress (demoRequest 3 1 ''0xaa'' ''pending'' 203))
            = Some \<lparr>u_id = 1, username = ''alice'', walletAddress = Some ''0xaa''\<rparr>"
    unfolding strayRequests_eq by code_simp
  have o3: "getNftOwnershipByCourseAndOwner strayRequests
              (ar_courseId (demoRequest 3 1 ''0xaa'' ''pending'' 203))
              (u_id \<lparr>u_id = 1, username = ''alice'', walletAddress = Some ''0xaa''\<rparr>)
            = Some \<lparr>o_id = 1, o_courseId = 1, ownerId = 1, tokenId = ''token-1'', mintedAt = 100\<rparr>"
    unfolding strayRequests_eq by code_simp
  have a: "updateStatus 300 (Some 1) (Some ''approved'') strayRequests
     = (Response 404 (Message ''Owner user not found''),
        storeRequest 1 (withStatus (demoRequest 1 1 ''0xcc'' ''pending'' 201) ''approved'' 300)
          strayRequests)"
    unfolding updateStatus_def
    using approval_partial_failure [OF r1, where create = ?mem and now = 300] n1 by blast
  have b: "updateStatus 300 (Some 2) (Some ''approved'') strayRequests
     = (Response 404 (Message ''Owner does not own this course''),
        storeRequest 2 (withStatus (demoRequest 2 2 ''0xaa'' ''pending'' 202) ''approved'' 300)
          strayRequests)"
    unfolding updateStatus_def
    using approval_partial_failure [OF r2, where create = ?mem and now = 300] u2 n2 by blast
  have c: "updateStatusWith failingCreate 300 (Some 3) (Some ''approved'') strayRequests
     = (Response 200
          (RequestNotGrantedJson
             (Some (withStatus (demoRequest 3 1 ''0xaa'' ''pending'' 203) ''approved'' 300))
             ''storage unavailable''),
        storeRequest 3 (withStatus (demoRequest 3 1 ''0xaa'' ''pending'' 203) ''approved'' 300)
          strayRequests)"
  proof -
    have f: "failingCreate 300
               \<lparr>it_ownershipId = o_id \<lparr>o_id = 1, o_courseId = 1, ownerId = 1,
                                       tokenId = ''token-1'', mintedAt = 100\<rparr>,
                it_recipientAddress = requesterAddress (demoRequest 3 1 ''0xaa'' ''pending'' 203),
                it_expiresAt = addDays 300 (requestDuration (demoRequest 3 1 ''0xaa'' ''pending'' 203))\<rparr>
               (storeRequest 3 (withStatus (demoRequest 3 1 ''0xaa'' ''pending'' 203) ''approved'' 300)
                  strayRequests)
             = Inl ''storage unavailable''"
      by (simp add: failingCreate_def)
    show ?thesis
      using approval_partial_failure [OF r3, where create = failingCreate and now = 300
        and accessError = "''storage unavailable''"
        and u = "\<lparr>u_id = 1, username = ''alice'', walletAddress = Some ''0xaa''\<rparr>"
        and ownership = "\<lparr>o_id = 1, o_courseId = 1, ownerId = 1, tokenId = ''token-1'',
                          mintedAt = 100\<rparr>"] u3 o3 f
      by blast
  qed
  have "grantStepFailed (fst (updateStatusWith failingCreate 300 (Some 3) (Some ''approved'') strayRequests))"
    by (simp add: c)
  with approval_partial_failure [OF r3, where create = failingCreate and now = 300
      and rid = "Some 3" and st = "Some ''approved''" and ?s0.0 = strayRequests
      and resp = "fst (updateStatusWith failingCreate 300 (Some 3) (Some ''approved'') strayRequests)"
      and s' = "snd (updateStatusWith failingCreate 300 (Some 3) (Some ''approved'') strayRequests)"] r3
  have d: "map_option status
        (getAccessRequestById
           (snd (updateStatusWith failingCreate 300 (Some 3) (Some ''approved'') strayRequests)) 3)
     = Some ''approved''"
    by auto
  show ?thesis using a b c d by blast
qed

text \<open>
  Claim C1 says that every operation creating a grant refuses a second grant for the same
  ownership and recipient while one is live. The share route does: it keeps the live
  grants of every (ownership, recipient) pair at one row at most
  (\<open>share_keeps_live_grants_unique\<close>). The approval route does not look at the existing
  grants. In the example, Bob has a live grant from the approval of his first request;
  the share route refuses him a second one, but approving his second request is answered
  200 with \<open>accessGranted: true\<close> and stores a second live grant for the same ownership
  and the same recipient.
\<close>

theorem approval_adds_second_live_grant:
  "liveGrants 400 firstApproved 1 ''0xbb'' = [demoAccess 1 1 ''0xbb'' 604800300 True 300]
   \<and> getAccessRequestById firstApproved 2 = Some (demoRequest 2 1 ''0xaa'' ''pending'' 201)
   \<and> updateStatus 301 (Some 2) (Some ''approved'') firstApproved
       = (Response 200
            (RequestGrantedJson
               (Some (withStatus (demoRequest 2 1 ''0xaa'' ''pending'' 201) ''approved'' 301))
               604800301),
          bothApproved)
   \<and> liveGrants 400 bothApproved 1 ''0xbb''
       = [demoAccess 1 1 ''0xbb'' 604800300 True 300, demoAccess 2 1 ''0xbb'' 604800301 True 301]
   \<and> fst (share 400 \<lparr>sb_ownershipId = Some 1, sb_recipientAddress = Some ''0xBB'',
                      sb_expiresAt = Some 604800400\<rparr> firstApproved)
       = Response 400 (Message ''Active temporary access already exists for this recipient'')"
  unfolding bothApproved_eq firstApproved_eq by code_simp

end
